theory Spec2Isabelle
  imports Complex_Main
begin

section \<open>HearHere: streaming transcription session (alphaVersion.py)\<close>

text \<open>
  The program is one Python module. Its functions talk to three libraries: the
  WebSocket client, PyAudio and Tkinter. The embedding keeps the functions pure by
  returning the list of library calls a function makes, in order (its trace), next to
  the values it computes. What a blocking library call returns or raises is an input:
  each loop takes a script, the list of outcomes of its successive iterations. A loop
  of the source is \<open>while True\<close>; when the script is used up the model stops with the
  loop still alive (blocked in its next library call), which is a result of its own.

  Assumptions of the model, all about the libraries and not about the module:
  calls that the source makes outside any \<open>try\<close> block (the Tkinter calls, \<open>print\<close>,
  \<open>time.sleep\<close>, starting a thread, the PyAudio calls of \<open>restart_stream\<close> and
  \<open>on_closing\<close>) return normally, and the Python call stack is deep enough for the
  mutual recursion of \<open>listen_and_stream\<close> and \<open>restart_stream\<close>.
  A Python \<open>str\<close> is a \<open>string\<close>; the bytes of an audio buffer are a \<open>string\<close> too.
\<close>

subsection \<open>Library calls\<close>

type_synonym handle = nat
  \<comment> \<open>the identity of a WebSocket object returned by \<open>create_connection\<close>\<close>

datatype jvalue = JStr string | JBool bool | JInt int

datatype frame =
    JsonText "(string \<times> jvalue) list"
      \<comment> \<open>\<open>ws.send(json.dumps(d))\<close>: a text frame holding the object \<open>d\<close>\<close>
  | Binary string
      \<comment> \<open>\<open>ws.send(data, opcode=0x2)\<close>\<close>

datatype thread =
    ReceiveThread handle  \<comment> \<open>\<open>Thread(target=receive_transcription, args=(ws,), daemon=True)\<close>\<close>
  | CaptureThread handle  \<comment> \<open>\<open>Thread(target=listen_and_stream, args=(ws,), daemon=True)\<close>\<close>

datatype action =
    CreateConnection string "string list" "handle option"
      \<comment> \<open>\<open>create_connection(url, header=headers)\<close>; \<open>None\<close> when it raised\<close>
  | WsSend handle frame
  | WsRecv handle
  | StartThread thread
  | Print string
  | Sleep nat
  | TkConfigState string       \<comment> \<open>\<open>text_box.config(state=...)\<close>\<close>
  | TkDelete string string     \<comment> \<open>\<open>text_box.delete(index1, index2)\<close>\<close>
  | TkInsert string string     \<comment> \<open>\<open>text_box.insert(index, chars)\<close>\<close>
  | TkSee string               \<comment> \<open>\<open>text_box.see(index)\<close>\<close>
  | StreamRead nat             \<comment> \<open>\<open>stream.read(n, exception_on_overflow=False)\<close>\<close>
  | StreamStop
  | StreamClose
  | AudioOpen                  \<comment> \<open>\<open>stream = audio.open(...)\<close>\<close>
  | AudioTerminate
  | RootDestroy

datatype py_exception =
    WebSocketConnectionClosedException
  | KeyError string
  | IndexError
  | OtherException string

fun exc_str :: "py_exception \<Rightarrow> string" where
  "exc_str WebSocketConnectionClosedException = ''''"
| "exc_str (KeyError k) = [CHR 0x27] @ k @ [CHR 0x27]"
| "exc_str IndexError = ''list index out of range''"
| "exc_str (OtherException s) = s"

subsection \<open>Inbound messages\<close>

text \<open>
  What \<open>json.loads\<close> returns for a message of the service: an object that may have a
  \<open>results\<close> list; a result may have an \<open>alternatives\<close> list and a \<open>final\<close> flag; an
  alternative may have a \<open>transcript\<close>. A missing key is \<open>None\<close>, so that the
  \<open>KeyError\<close> and \<open>IndexError\<close> of lines 176-177 are branches of the model.
\<close>

datatype alternative = Alternative "string option"
datatype result = Result "alternative list option" "bool option"
datatype message = Message "result list option"

fun first_transcript :: "result list \<Rightarrow> py_exception + string" where
  "first_transcript [] = Inl IndexError"
| "first_transcript (Result None fin # rs) = Inl (KeyError ''alternatives'')"
| "first_transcript (Result (Some []) fin # rs) = Inl IndexError"
| "first_transcript (Result (Some (Alternative None # as)) fin # rs) = Inl (KeyError ''transcript'')"
| "first_transcript (Result (Some (Alternative (Some t) # as)) fin # rs) = Inr t"

fun first_final :: "result list \<Rightarrow> py_exception + bool" where
  "first_final [] = Inl IndexError"
| "first_final (Result alts None # rs) = Inl (KeyError ''final'')"
| "first_final (Result alts (Some f) # rs) = Inr f"

subsection \<open>The receive loop: \<open>receive_transcription\<close>\<close>

record recv_state =
  last_partial :: string       \<comment> \<open>local of \<open>receive_transcription\<close>\<close>
  last_final :: string         \<comment> \<open>local of \<open>receive_transcription\<close>\<close>
  last_update_time :: real     \<comment> \<open>module global\<close>

text \<open>Lines 178-201: the body run for a message that has results.\<close>

definition show_result :: "recv_state \<Rightarrow> string \<Rightarrow> bool \<Rightarrow> real \<Rightarrow> recv_state \<times> action list" where
  "show_result st transcript is_final current_time =
     (let (st', acts) =
        (if is_final then
           (if transcript \<noteq> last_final st then
              (st\<lparr>last_final := transcript, last_partial := '''',
                   last_update_time := current_time\<rparr>,
               [TkDelete ''end-1c linestart'' ''end'',
                TkInsert ''end'' (transcript @ '' ''),
                Print (''Final:  '' @ transcript)])
            else (st, []))
         else
           (if transcript \<noteq> last_partial st then
              (st\<lparr>last_partial := transcript\<rparr>,
               [TkDelete ''end-1c linestart'' ''end'',
                TkInsert ''end'' transcript,
                Print (''Partial:  '' @ transcript)])
            else (st, [])))
      in (st', [TkConfigState ''normal''] @ acts @ [TkConfigState ''disabled'', TkSee ''end'']))"

text \<open>Lines 175-201: the body run for a decoded message; \<open>current_time\<close> is what
  \<open>time.time()\<close> returns at line 178.\<close>

fun handle_message :: "recv_state \<Rightarrow> message \<Rightarrow> real \<Rightarrow> py_exception + recv_state \<times> action list" where
  "handle_message st (Message None) current_time = Inr (st, [])"
| "handle_message st (Message (Some rs)) current_time =
     (case first_transcript rs of
        Inl e \<Rightarrow> Inl e
      | Inr transcript \<Rightarrow>
          (case first_final rs of
             Inl e \<Rightarrow> Inl e
           | Inr is_final \<Rightarrow> Inr (show_result st transcript is_final current_time)))"

datatype recv_outcome =
    Received message real   \<comment> \<open>\<open>ws.recv()\<close> returned text that decodes to the message; the clock reading\<close>
  | RecvRaises py_exception \<comment> \<open>\<open>ws.recv()\<close> or \<open>json.loads\<close> raised\<close>

text \<open>Lines 171-201. The result is the trace, the state, and the exception that ended
  the loop (\<open>None\<close>: the script is used up and the loop is blocked in \<open>ws.recv()\<close>).\<close>

fun receive_loop :: "handle \<Rightarrow> recv_state \<Rightarrow> recv_outcome list
    \<Rightarrow> action list \<times> recv_state \<times> py_exception option" where
  "receive_loop ws st [] = ([], st, None)"
| "receive_loop ws st (RecvRaises e # script) = ([WsRecv ws], st, Some e)"
| "receive_loop ws st (Received m current_time # script) =
     (case handle_message st m current_time of
        Inl e \<Rightarrow> ([WsRecv ws], st, Some e)
      | Inr (st', acts) \<Rightarrow>
          (case receive_loop ws st' script of
             (acts', st'', fin) \<Rightarrow> (WsRecv ws # acts @ acts', st'', fin)))"

subsection \<open>Credentials and the handshake: lines 63-64 and \<open>connect_and_transcribe\<close>\<close>

text \<open>\<open>base64.b64encode\<close> of the standard library (RFC 4648, with padding), on bytes.\<close>

definition b64_alphabet :: string where
  "b64_alphabet = ''ABCDEFGHIJKLMNOPQRSTUVWXYZabcdefghijklmnopqrstuvwxyz0123456789+/''"

definition b64_char :: "nat \<Rightarrow> char" where
  "b64_char n = b64_alphabet ! (n mod 64)"

fun b64encode :: "string \<Rightarrow> string" where
  "b64encode (a # b # c # rest) =
     (let n = (of_char a :: nat) * 65536 + of_char b * 256 + of_char c
      in [b64_char (n div 262144), b64_char (n div 4096), b64_char (n div 64), b64_char n]
         @ b64encode rest)"
| "b64encode [a, b] =
     (let n = (of_char a :: nat) * 65536 + of_char b * 256
      in [b64_char (n div 262144), b64_char (n div 4096), b64_char (n div 64), CHR ''=''])"
| "b64encode [a] =
     (let n = (of_char a :: nat) * 65536
      in [b64_char (n div 262144), b64_char (n div 4096), CHR ''='', CHR ''=''])"
| "b64encode [] = []"

definition auth_string :: "string \<Rightarrow> string" where
  "auth_string api_key = ''apikey:'' @ api_key"

definition auth_base64 :: "string \<Rightarrow> string" where
  "auth_base64 api_key = b64encode (auth_string api_key)"

definition headers :: "string \<Rightarrow> string list" where
  "headers api_key = [''Authorization: Basic '' @ auth_base64 api_key]"

definition init_message :: "(string \<times> jvalue) list" where
  "init_message =
     [(''action'', JStr ''start''),
      (''content-type'', JStr ''audio/l16; rate=16000; channels=1''),
      (''interim_results'', JBool True),
      (''timestamps'', JBool False),
      (''inactivity_timeout'', JInt (- 1))]"

datatype connect_outcome =
    ConnectRaises string          \<comment> \<open>\<open>create_connection\<close> raised; the exception's text\<close>
  | InitSendRaises handle string  \<comment> \<open>the socket was created and \<open>ws.send(init_message)\<close> raised\<close>
  | Connected handle              \<comment> \<open>both calls returned\<close>

text \<open>Lines 126-148. One script entry per iteration of the retry loop; \<open>None\<close> when
  the script is used up, the loop still retrying.\<close>

fun connect_and_transcribe :: "string \<Rightarrow> string \<Rightarrow> connect_outcome list
    \<Rightarrow> action list \<times> handle option" where
  "connect_and_transcribe url api_key [] = ([], None)"
| "connect_and_transcribe url api_key (ConnectRaises e # script) =
     (case connect_and_transcribe url api_key script of
        (acts, r) \<Rightarrow>
          ([CreateConnection url (headers api_key) None,
            Print (''Failed to connect: '' @ e @ ''. Retrying in 2 seconds...''),
            Sleep 2] @ acts, r))"
| "connect_and_transcribe url api_key (InitSendRaises ws e # script) =
     (case connect_and_transcribe url api_key script of
        (acts, r) \<Rightarrow>
          ([CreateConnection url (headers api_key) (Some ws),
            WsSend ws (JsonText init_message),
            Print (''Failed to connect: '' @ e @ ''. Retrying in 2 seconds...''),
            Sleep 2] @ acts, r))"
| "connect_and_transcribe url api_key (Connected ws # script) =
     ([CreateConnection url (headers api_key) (Some ws),
       WsSend ws (JsonText init_message),
       Print ''Connected to IBM Watson Speech-to-Text. Listening...'',
       StartThread (ReceiveThread ws)], Some ws)"

text \<open>Lines 166-209, the whole of \<open>receive_transcription\<close>: the locals start empty, the
  loop runs, and either handler calls \<open>connect_and_transcribe()\<close> and drops what it
  returns.\<close>

datatype recv_end =
    StillReceiving      \<comment> \<open>blocked in \<open>ws.recv()\<close>\<close>
  | StillConnecting     \<comment> \<open>inside the retry loop of \<open>connect_and_transcribe\<close>\<close>
  | Returned handle     \<comment> \<open>the function returned; the handle is the new connection's\<close>

definition receive_transcription :: "string \<Rightarrow> string \<Rightarrow> handle \<Rightarrow> real
    \<Rightarrow> recv_outcome list \<Rightarrow> connect_outcome list \<Rightarrow> action list \<times> recv_state \<times> recv_end" where
  "receive_transcription url api_key ws update_time script cscript =
     (case receive_loop ws
             \<lparr>last_partial = '''', last_final = '''', last_update_time = update_time\<rparr> script of
        (acts, st, None) \<Rightarrow> (acts, st, StillReceiving)
      | (acts, st, Some e) \<Rightarrow>
          (let handler =
             (case e of
                WebSocketConnectionClosedException \<Rightarrow>
                  [Print ''WebSocket connection closed. Reconnecting...'']
              | _ \<Rightarrow>
                  [Print (''Unexpected WebSocket error: '' @ exc_str e
                          @ ''. Attempting reconnection...''),
                   Sleep 2])
           in (case connect_and_transcribe url api_key cscript of
                 (cacts, None) \<Rightarrow> (acts @ handler @ cacts, st, StillConnecting)
               | (cacts, Some ws') \<Rightarrow> (acts @ handler @ cacts, st, Returned ws'))))"

subsection \<open>The capture loop: \<open>listen_and_stream\<close> and \<open>restart_stream\<close>\<close>

definition chunk_size :: nat where
  "chunk_size = 512"

datatype capture_outcome =
    Streamed string           \<comment> \<open>the frame was read and sent\<close>
  | ReadRaises string         \<comment> \<open>\<open>stream.read\<close> raised; the exception's text\<close>
  | SendRaises string string  \<comment> \<open>the frame was read, \<open>ws.send\<close> raised; the exception's text\<close>

text \<open>Lines 225-231 and 246-253. One script entry per iteration of the loop. The loop
  has no exit: the trace ends where the script does, the loop alive.\<close>

fun listen_and_stream :: "handle \<Rightarrow> capture_outcome list \<Rightarrow> action list"
  and restart_stream :: "handle \<Rightarrow> capture_outcome list \<Rightarrow> action list" where
  "listen_and_stream ws [] = []"
| "listen_and_stream ws (Streamed data # script) =
     StreamRead chunk_size # WsSend ws (Binary data) # listen_and_stream ws script"
| "listen_and_stream ws (ReadRaises e # script) =
     StreamRead chunk_size # Print (''Audio streaming error: '' @ e) # restart_stream ws script"
| "listen_and_stream ws (SendRaises data e # script) =
     StreamRead chunk_size # WsSend ws (Binary data) # Print (''Audio streaming error: '' @ e)
       # restart_stream ws script"
| "restart_stream ws script =
     StreamStop # StreamClose # Sleep 1 # AudioOpen # listen_and_stream ws script"

subsection \<open>Shutdown and start: \<open>on_closing\<close> and lines 104-107, 275-276\<close>


definition main_program :: "string \<Rightarrow> string \<Rightarrow> connect_outcome list \<Rightarrow> action list \<times> handle option" where
  "main_program url api_key cscript =
     (case connect_and_transcribe url api_key cscript of
        (acts, None) \<Rightarrow> (AudioOpen # acts, None)
      | (acts, Some ws) \<Rightarrow> (AudioOpen # acts @ [StartThread (CaptureThread ws)], Some ws))"

subsection \<open>What the calls do to the devices\<close>





section \<open>The vocabulary of the specification\<close>

text \<open>
  The specification speaks of recognition events and display commands. The module has
  neither type: an event is the pair of \<open>transcript\<close> and \<open>is_final\<close> read at lines
  176-177, and a display command is a pair of calls on \<open>text_box\<close>. The definitions
  below say which; both commands are the same two calls (delete the trailing line,
  insert at the end) and differ in the text only.
\<close>

datatype RecognitionEvent = PartialText string | FinalText string





text \<open>The event a decoded message carries: \<open>Inr None\<close> for an object without
  \<open>results\<close>, \<open>Inl\<close> where lines 176-177 raise.\<close>

fun decode :: "message \<Rightarrow> py_exception + RecognitionEvent option" where
  "decode (Message None) = Inr None"
| "decode (Message (Some rs)) =
     (case first_transcript rs of
        Inl e \<Rightarrow> Inl e
      | Inr t \<Rightarrow>
          (case first_final rs of
             Inl e \<Rightarrow> Inl e
           | Inr f \<Rightarrow> Inr (Some (if f then FinalText t else PartialText t))))"


text \<open>The smallest message of the service that carries an event, for concrete runs.\<close>

fun event_message :: "RecognitionEvent \<Rightarrow> message" where
  "event_message (PartialText t) = Message (Some [Result (Some [Alternative (Some t)]) (Some False)])"
| "event_message (FinalText t) = Message (Some [Result (Some [Alternative (Some t)]) (Some True)])"


fun sent :: "action list \<Rightarrow> (handle \<times> frame) list" where
  "sent [] = []"
| "sent (WsSend ws f # acts) = (ws, f) # sent acts"
| "sent (a # acts) = sent acts"


fun started :: "action list \<Rightarrow> thread list" where
  "started [] = []"
| "started (StartThread t # acts) = t # started acts"
| "started (a # acts) = started acts"


text \<open>What the loop body does with a message that carries the event.\<close>

definition deliver :: "recv_state \<Rightarrow> RecognitionEvent \<Rightarrow> real \<Rightarrow> recv_state \<times> action list" where
  "deliver st ev current_time =
     (case ev of
        PartialText t \<Rightarrow> show_result st t False current_time
      | FinalText t \<Rightarrow> show_result st t True current_time)"

section \<open>Properties\<close>

subsection \<open>One message\<close>


lemma decode_event_message: "decode (event_message ev) = Inr (Some ev)"
  by (cases ev) simp_all


lemma deliver_partial_state:
  "fst (deliver st (PartialText t) now) = (if t = last_partial st then st else st\<lparr>last_partial := t\<rparr>)"
  by (simp add: deliver_def show_result_def)







text \<open>
  C10. For a message that is an object without \<open>results\<close> the body makes no call at
  all, so nothing is displayed and the text is untouched; the state is unchanged; and
  the loop goes on to the next \<open>ws.recv()\<close> with that state.
\<close>

theorem no_results_message:
  "handle_message st (Message None) now = Inr (st, []) \<and>
   receive_loop ws st (Received (Message None) now # script) =
     (case receive_loop ws st script of (acts, st', fin) \<Rightarrow> (WsRecv ws # acts, st', fin))"
  by simp

subsection \<open>Runs of the receive loop\<close>





lemma deliver_partial_last_final:
  "last_final (fst (deliver st (PartialText t) now)) = last_final st"
  by (simp add: deliver_partial_state)

lemma deliver_partial_last_partial:
  "last_partial (fst (deliver st (PartialText t) now)) = t"
  by (simp add: deliver_partial_state)













subsection \<open>The handshake\<close>





subsection \<open>The audio device\<close>










subsection \<open>The capture loop\<close>





subsection \<open>Reconnection and the capture thread\<close>

lemma connect_started:
  "set (started (fst (connect_and_transcribe url api_key script))) \<subseteq> range ReceiveThread"
  by (induction url api_key script rule: connect_and_transcribe.induct)
    (simp_all add: case_prod_beta)

lemma show_result_started: "started (snd (show_result st t f now)) = []"
  by (simp add: show_result_def)

lemma started_append: "started (xs @ ys) = started xs @ started ys"
  by (induction xs rule: started.induct) simp_all

lemma receive_loop_started: "started (fst (receive_loop ws st script)) = []"
proof (induction ws st script rule: receive_loop.induct)
  case (1 ws st)
  then show ?case by simp
next
  case (2 ws st e script)
  then show ?case by simp
next
  case (3 ws st m current_time script)
  show ?case
  proof (cases "handle_message st m current_time")
    case (Inl e)
    then show ?thesis by simp
  next
    case (Inr p)
    obtain st' acts where p: "p = (st', acts)" by (cases p)
    have "started acts = []"
    proof (cases m)
      case (Message rs)
      show ?thesis
      proof (cases rs)
        case None
        with Inr p Message show ?thesis by simp
      next
        case (Some xs)
        with Inr p Message obtain t f where "show_result st t f current_time = (st', acts)"
          by (auto split: sum.splits)
        then have "acts = snd (show_result st t f current_time)"
          by (metis snd_conv)
        then show ?thesis
          by (simp only: show_result_started)
      qed
    qed
    moreover have "started (fst (receive_loop ws st' script)) = []"
      using "3.IH" Inr p by simp
    ultimately show ?thesis
      using Inr p by (simp add: case_prod_beta started_append)
  qed
qed

lemma receive_transcription_started:
  "set (started (fst (receive_transcription url api_key ws ut script cscript))) \<subseteq> range ReceiveThread"
  using receive_loop_started [of ws "\<lparr>last_partial = '''', last_final = '''', last_update_time = ut\<rparr>" script]
    connect_started [of url api_key cscript]
  by (auto simp: receive_transcription_def started_append
      split: prod.splits option.splits py_exception.splits)

text \<open>
  C6. The run of \<open>receive_transcription\<close> on handle 0 whose \<open>ws.recv()\<close> raises the
  closed-connection exception, the reconnection giving handle 1: the new socket gets
  its start message and a receive thread; what \<open>connect_and_transcribe\<close> returns is
  dropped. At program start (lines 275-276) the returned handle is given to a capture
  thread; no run of \<open>receive_transcription\<close> starts a capture thread, and the capture
  loop started on handle 0 sends every later frame on handle 0.
\<close>

theorem reconnect_leaves_capture_thread:
  "receive_transcription url api_key 0 ut [RecvRaises WebSocketConnectionClosedException] [Connected 1] =
     ([WsRecv 0, Print ''WebSocket connection closed. Reconnecting...'',
       CreateConnection url (headers api_key) (Some 1),
       WsSend 1 (JsonText init_message),
       Print ''Connected to IBM Watson Speech-to-Text. Listening...'',
       StartThread (ReceiveThread 1)],
      \<lparr>last_partial = '''', last_final = '''', last_update_time = ut\<rparr>, Returned 1) \<and>
   started (fst (main_program url api_key [Connected 0])) = [ReceiveThread 0, CaptureThread 0] \<and>
   CaptureThread h \<notin> set (started (fst (receive_transcription url api_key ws ut script cscript))) \<and>
   sent (listen_and_stream 0 [Streamed d1, SendRaises d2 e, Streamed d3]) =
     [(0, Binary d1), (0, Binary d2), (0, Binary d3)]"
proof -
  have "CaptureThread h \<notin> set (started (fst (receive_transcription url api_key ws ut script cscript)))"
    using receive_transcription_started [of url api_key ws ut script cscript] by auto
  then show ?thesis
    by (simp add: receive_transcription_def main_program_def)
qed

subsection \<open>Shutdown\<close>




end
